theory Spec2Isabelle
  imports Complex_Main
begin

section \<open>Values of a column\<close>

text \<open>
  A cell of a pandas column is a float64. The model keeps the special values of
  IEEE arithmetic (\<open>NaN\<close>, which is also pandas' marker for a missing value, and the
  two infinities) and takes every finite value as a real number: arithmetic on finite
  values is exact, there is no rounding, no overflow and a single zero.
\<close>

datatype fval = Num real | PInf | NInf | NaN

fun isna :: "fval \<Rightarrow> bool" where
  "isna NaN = True"
| "isna _ = False"

fun is_num :: "fval \<Rightarrow> bool" where
  "is_num (Num _) = True"
| "is_num _ = False"

fun num_of :: "fval \<Rightarrow> real" where
  "num_of (Num a) = a"
| "num_of _ = 0"

fun fneg :: "fval \<Rightarrow> fval" where
  "fneg (Num a) = Num (- a)"
| "fneg PInf = NInf"
| "fneg NInf = PInf"
| "fneg NaN = NaN"

fun fadd :: "fval \<Rightarrow> fval \<Rightarrow> fval" where
  "fadd (Num a) (Num b) = Num (a + b)"
| "fadd (Num a) PInf = PInf"
| "fadd (Num a) NInf = NInf"
| "fadd PInf (Num b) = PInf"
| "fadd NInf (Num b) = NInf"
| "fadd PInf PInf = PInf"
| "fadd NInf NInf = NInf"
| "fadd PInf NInf = NaN"
| "fadd NInf PInf = NaN"
| "fadd NaN _ = NaN"
| "fadd _ NaN = NaN"

definition fsub :: "fval \<Rightarrow> fval \<Rightarrow> fval" where
  "fsub a b = fadd a (fneg b)"

fun fmul :: "fval \<Rightarrow> fval \<Rightarrow> fval" where
  "fmul (Num a) (Num b) = Num (a * b)"
| "fmul (Num a) PInf = (if a = 0 then NaN else if 0 < a then PInf else NInf)"
| "fmul (Num a) NInf = (if a = 0 then NaN else if 0 < a then NInf else PInf)"
| "fmul PInf (Num b) = (if b = 0 then NaN else if 0 < b then PInf else NInf)"
| "fmul NInf (Num b) = (if b = 0 then NaN else if 0 < b then NInf else PInf)"
| "fmul PInf PInf = PInf"
| "fmul NInf NInf = PInf"
| "fmul PInf NInf = NInf"
| "fmul NInf PInf = NInf"
| "fmul NaN _ = NaN"
| "fmul _ NaN = NaN"

text \<open>Division of floats never raises: a zero divisor gives an infinity or \<open>NaN\<close>.\<close>

fun fdiv :: "fval \<Rightarrow> fval \<Rightarrow> fval" where
  "fdiv (Num a) (Num b) =
     (if b = 0 then (if a = 0 then NaN else if 0 < a then PInf else NInf)
      else Num (a / b))"
| "fdiv (Num a) PInf = Num 0"
| "fdiv (Num a) NInf = Num 0"
| "fdiv PInf (Num b) = (if 0 \<le> b then PInf else NInf)"
| "fdiv NInf (Num b) = (if 0 \<le> b then NInf else PInf)"
| "fdiv PInf PInf = NaN"
| "fdiv NInf NInf = NaN"
| "fdiv PInf NInf = NaN"
| "fdiv NInf PInf = NaN"
| "fdiv NaN _ = NaN"
| "fdiv _ NaN = NaN"

text \<open>Comparisons: every comparison with \<open>NaN\<close> is false.\<close>

fun flt :: "fval \<Rightarrow> fval \<Rightarrow> bool" where
  "flt (Num a) (Num b) = (a < b)"
| "flt (Num a) PInf = True"
| "flt NInf (Num b) = True"
| "flt NInf PInf = True"
| "flt _ _ = False"

definition fgt :: "fval \<Rightarrow> fval \<Rightarrow> bool" where
  "fgt a b = flt b a"

text \<open>Python's \<open>min(a, b)\<close> keeps its first argument unless the second is smaller.\<close>

definition py_min :: "fval \<Rightarrow> fval \<Rightarrow> fval" where
  "py_min a b = (if flt b a then b else a)"

section \<open>Series operations\<close>

text \<open>
  \<open>Series.rolling(window=w)\<close> has \<open>min_periods = w\<close>: the value at index \<open>i\<close> is
  defined only when the window \<open>[i - w + 1, i]\<close> lies in the series and holds \<open>w\<close>
  observations; pandas turns infinities into \<open>NaN\<close> before aggregating, so an
  observation is a finite value.
\<close>

definition window_at :: "nat \<Rightarrow> fval list \<Rightarrow> nat \<Rightarrow> fval list" where
  "window_at w xs i = take w (drop (Suc i - w) xs)"

definition mean_of :: "fval list \<Rightarrow> fval" where
  "mean_of ws = Num (sum_list (map num_of ws) / real (length ws))"

definition rolling_mean :: "nat \<Rightarrow> fval list \<Rightarrow> fval list" where
  "rolling_mean w xs =
     map (\<lambda>i. if 0 < w \<and> w \<le> Suc i \<and> list_all is_num (window_at w xs i)
              then mean_of (window_at w xs i) else NaN)
         [0..<length xs]"

text \<open>\<open>std()\<close> is the sample standard deviation (\<open>ddof = 1\<close>).\<close>

definition std_of :: "fval list \<Rightarrow> fval" where
  "std_of ws =
     (let m = sum_list (map num_of ws) / real (length ws)
      in Num (sqrt (sum_list (map (\<lambda>x. (num_of x - m)\<^sup>2) ws) / real (length ws - 1))))"

definition rolling_std :: "nat \<Rightarrow> fval list \<Rightarrow> fval list" where
  "rolling_std w xs =
     map (\<lambda>i. if 1 < w \<and> w \<le> Suc i \<and> list_all is_num (window_at w xs i)
              then std_of (window_at w xs i) else NaN)
         [0..<length xs]"

text \<open>\<open>Series.diff()\<close>: the first entry has no predecessor and is \<open>NaN\<close>.\<close>

definition diff :: "fval list \<Rightarrow> fval list" where
  "diff xs = map (\<lambda>i. if i = 0 then NaN else fsub (xs ! i) (xs ! (i - 1))) [0..<length xs]"

text \<open>\<open>s.where(cond, other)\<close> keeps a value where the condition holds.\<close>

definition where_or :: "(fval \<Rightarrow> bool) \<Rightarrow> fval \<Rightarrow> fval list \<Rightarrow> fval list" where
  "where_or cond other xs = map (\<lambda>x. if cond x then x else other) xs"

section \<open>Data frames and the store\<close>

record frame =
  index :: "int list"
  columns :: "string \<rightharpoonup> fval list"

definition len :: "frame \<Rightarrow> nat" where
  "len f = length (index f)"

datatype error = KeyError | IndexError | TypeError

definition getitem :: "frame \<Rightarrow> string \<Rightarrow> error + fval list" where
  "getitem f name = (case columns f name of None \<Rightarrow> Inl KeyError | Some c \<Rightarrow> Inr c)"

definition iloc_last :: "fval list \<Rightarrow> error + fval" where
  "iloc_last c = (if c = [] then Inl IndexError else Inr (last c))"

text \<open>
  A Python variable holds a reference to a frame; \<open>data[name] = series\<close> changes the
  frame the reference points to, for every holder of the reference.
\<close>

type_synonym ref = nat
type_synonym heap = "ref \<Rightarrow> frame"

definition setitem :: "ref \<Rightarrow> string \<Rightarrow> fval list \<Rightarrow> heap \<Rightarrow> heap" where
  "setitem r name c h = h(r := (h r)\<lparr>columns := (columns (h r))(name \<mapsto> c)\<rparr>)"

section \<open>main.py\<close>

definition simple_moving_average :: "frame \<Rightarrow> nat \<Rightarrow> error + fval list" where
  "simple_moving_average data w =
     (case getitem data ''Close'' of Inl e \<Rightarrow> Inl e | Inr c \<Rightarrow> Inr (rolling_mean w c))"

section \<open>dashboard.py\<close>

definition rsi_of :: "fval \<Rightarrow> fval" where
  "rsi_of rs = fsub (Num 100) (fdiv (Num 100) (fadd (Num 1) rs))"

definition calculate_technical_indicators ::
  "ref option \<Rightarrow> heap \<Rightarrow> (error + ref option) \<times> heap" where
  "calculate_technical_indicators data h =
     (case data of
        None \<Rightarrow> (Inr None, h)
      | Some r \<Rightarrow>
          if len (h r) < 20 then (Inr None, h)
          else (case getitem (h r) ''Close'' of
                  Inl e \<Rightarrow> (Inl e, h)
                | Inr close \<Rightarrow>
                    let h1 = setitem r ''SMA_20'' (rolling_mean 20 close) h;
                        h2 = setitem r ''SMA_50'' (rolling_mean 50 close) h1;
                        delta = diff close;
                        gain = rolling_mean 14 (where_or (\<lambda>d. fgt d (Num 0)) (Num 0) delta);
                        loss = rolling_mean 14
                                 (map fneg (where_or (\<lambda>d. flt d (Num 0)) (Num 0) delta));
                        rs = map2 fdiv gain loss;
                        h3 = setitem r ''RSI'' (map rsi_of rs) h2;
                        bb_middle = rolling_mean 20 close;
                        h4 = setitem r ''BB_Middle'' bb_middle h3;
                        bb_std = rolling_std 20 close;
                        h5 = setitem r ''BB_Upper''
                               (map2 fadd bb_middle (map (\<lambda>s. fmul s (Num 2)) bb_std)) h4;
                        h6 = setitem r ''BB_Lower''
                               (map2 fsub bb_middle (map (\<lambda>s. fmul s (Num 2)) bb_std)) h5
                    in (Inr (Some r), h6)))"

text \<open>
  \<open>f"{x:.1f}"\<close>: one digit after the point, the nearest tenth, a tie going to the even
  digit; the sign is printed for every negative value.
\<close>

definition round_half_even :: "real \<Rightarrow> nat" where
  "round_half_even x =
     (let n = nat \<lfloor>x\<rfloor>; fr = x - real_of_int \<lfloor>x\<rfloor>
      in if fr < 1 / 2 then n else if 1 / 2 < fr then Suc n
         else if even n then n else Suc n)"

definition digit_char :: "nat \<Rightarrow> char" where
  "digit_char d = char_of (48 + d)"

function show_nat :: "nat \<Rightarrow> string" where
  "show_nat n = (if n < 10 then [digit_char n] else show_nat (n div 10) @ [digit_char (n mod 10)])"
  by pat_completeness auto
termination
  by (relation "measure (\<lambda>n. n)") auto

declare show_nat.simps [simp del]

fun format_1f :: "fval \<Rightarrow> string" where
  "format_1f NaN = ''nan''"
| "format_1f PInf = ''inf''"
| "format_1f NInf = ''-inf''"
| "format_1f (Num x) =
     (let t = round_half_even (\<bar>x\<bar> * 10)
      in (if x < 0 then ''-'' else []) @ show_nat (t div 10) @ ''.'' @ [digit_char (t mod 10)])"

type_synonym signal = "string \<times> string \<times> fval"

text \<open>
  The function only reads its argument, so it is a function of the frame the reference
  points to. The source also computes \<open>rsi_signal\<close>, which no branch uses.
\<close>

definition latest :: "frame \<Rightarrow> string \<Rightarrow> error + fval" where
  "latest f name = (case getitem f name of Inl e \<Rightarrow> Inl e | Inr c \<Rightarrow> iloc_last c)"

definition generate_signal :: "frame option \<Rightarrow> error + signal" where
  "generate_signal data =
     (case data of
        None \<Rightarrow> Inr (''INSUFFICIENT_DATA'', ''Not enough data'', Num 0)
      | Some f \<Rightarrow>
          if len f < 20 then Inr (''INSUFFICIENT_DATA'', ''Not enough data'', Num 0)
          else
            (case latest f ''Close'' of Inl e \<Rightarrow> Inl e | Inr current_price \<Rightarrow>
            (case latest f ''SMA_20'' of Inl e \<Rightarrow> Inl e | Inr sma_20 \<Rightarrow>
            (case latest f ''RSI'' of Inl e \<Rightarrow> Inl e | Inr rsi \<Rightarrow>
               if isna sma_20 \<or> isna rsi then Inr (''NEUTRAL'', ''Calculating...'', Num 50)
               else
                 let price_signal = (if fgt current_price sma_20 then ''BUY'' else ''SELL'')
                 in if price_signal = ''BUY'' \<and> flt rsi (Num 70) then
                      Inr (''BUY'', ''Price above SMA20, RSI: '' @ format_1f rsi,
                           py_min (Num 80)
                             (fadd (Num 50)
                                (fmul (fdiv (fsub current_price sma_20) sma_20) (Num 1000))))
                    else if price_signal = ''SELL'' \<and> fgt rsi (Num 30) then
                      Inr (''SELL'', ''Price below SMA20, RSI: '' @ format_1f rsi,
                           py_min (Num 80)
                             (fadd (Num 50)
                                (fmul (fdiv (fsub sma_20 current_price) sma_20) (Num 1000))))
                    else Inr (''NEUTRAL'', ''Mixed signals, RSI: '' @ format_1f rsi, Num 40)))))"

section \<open>Example frames\<close>

definition enriched_frame :: "nat \<Rightarrow> real \<Rightarrow> fval \<Rightarrow> fval \<Rightarrow> fval \<Rightarrow> frame" where
  "enriched_frame n filler c s r =
     \<lparr>index = map int [0..<Suc n],
      columns = [''Close'' \<mapsto> replicate n (Num filler) @ [c],
                 ''SMA_20'' \<mapsto> replicate n NaN @ [s],
                 ''RSI'' \<mapsto> replicate n NaN @ [r]]\<rparr>"

definition raw_frame :: "real list \<Rightarrow> frame" where
  "raw_frame cs = \<lparr>index = map int [0..<length cs], columns = [''Close'' \<mapsto> map Num cs]\<rparr>"

section \<open>The series the engine stores\<close>

text \<open>
  The source's local series \<open>gain\<close> and \<open>loss\<close>, and the series it assigns to the
  columns RSI, BB_Upper and BB_Lower, as functions of the Close column;
  \<open>indicator_columns\<close> is the column map after the six assignments.
\<close>

definition gain_series :: "fval list \<Rightarrow> fval list" where
  "gain_series close = rolling_mean 14 (where_or (\<lambda>d. fgt d (Num 0)) (Num 0) (diff close))"

definition loss_series :: "fval list \<Rightarrow> fval list" where
  "loss_series close =
     rolling_mean 14 (map fneg (where_or (\<lambda>d. flt d (Num 0)) (Num 0) (diff close)))"

definition rsi_series :: "fval list \<Rightarrow> fval list" where
  "rsi_series close = map rsi_of (map2 fdiv (gain_series close) (loss_series close))"

definition bb_upper :: "fval list \<Rightarrow> fval list" where
  "bb_upper close =
     map2 fadd (rolling_mean 20 close) (map (\<lambda>s. fmul s (Num 2)) (rolling_std 20 close))"

definition bb_lower :: "fval list \<Rightarrow> fval list" where
  "bb_lower close =
     map2 fsub (rolling_mean 20 close) (map (\<lambda>s. fmul s (Num 2)) (rolling_std 20 close))"

definition indicator_columns :: "fval list \<Rightarrow> (string \<rightharpoonup> fval list) \<Rightarrow> (string \<rightharpoonup> fval list)" where
  "indicator_columns close cs =
     cs(''SMA_20'' \<mapsto> rolling_mean 20 close, ''SMA_50'' \<mapsto> rolling_mean 50 close,
        ''RSI'' \<mapsto> rsi_series close, ''BB_Middle'' \<mapsto> rolling_mean 20 close,
        ''BB_Upper'' \<mapsto> bb_upper close, ''BB_Lower'' \<mapsto> bb_lower close)"

section \<open>Example series\<close>

definition example_closes :: "real list" where
  "example_closes = [10, 11, 10, 11, 10, 11, 10, 11, 10, 11, 10, 11, 10, 11, 10, 11, 10, 11, 10, 11]"

definition flat_closes :: "real list" where
  "flat_closes = replicate 30 5"

definition short_closes :: "real list" where
  "short_closes = [100, 101, 102]"

definition negative_closes :: "real list" where
  "negative_closes =
     [- 10, - 10, - 10, - 10, - 10, - 10, - 10, - 10, - 10, - 10,
      - 10, - 10, - 10, - 10, - 10, - 10, - 10, - 10, - 12, - 9]"

definition rising_closes :: "real list" where
  "rising_closes = map real [100..<125]"

definition heap_of :: "real list \<Rightarrow> heap" where
  "heap_of cs r = raw_frame cs"

text \<open>
  The expression \<open>calculate_technical_indicators(data)[name].iloc[i]\<close> for \<open>i \<ge> 0\<close>:
  subscripting the result \<open>None\<close> raises TypeError, a missing column KeyError, an
  index past the end IndexError.
\<close>

definition indicator_at :: "heap \<Rightarrow> ref \<Rightarrow> string \<Rightarrow> nat \<Rightarrow> error + fval" where
  "indicator_at h r name i =
     (case calculate_technical_indicators (Some r) h of
        (Inl e, h') \<Rightarrow> Inl e
      | (Inr None, h') \<Rightarrow> Inl TypeError
      | (Inr (Some r'), h') \<Rightarrow>
          (case getitem (h' r') name of
             Inl e \<Rightarrow> Inl e
           | Inr c \<Rightarrow> if i < length c then Inr (c ! i) else Inl IndexError))"

section \<open>The signal generator\<close>

lemma len_enriched_frame [simp]: "len (enriched_frame n filler c s r) = Suc n"
  by (simp add: len_def enriched_frame_def)

lemma latest_enriched_frame [simp]:
  "latest (enriched_frame n filler c s r) ''Close'' = Inr c"
  "latest (enriched_frame n filler c s r) ''SMA_20'' = Inr s"
  "latest (enriched_frame n filler c s r) ''RSI'' = Inr r"
  by (simp_all add: latest_def getitem_def iloc_last_def enriched_frame_def)

text \<open>
  Claim C2. A missing series and a series of fewer than 20 bars (the empty one among
  them) give INSUFFICIENT_DATA, "Not enough data", confidence 0; a series of 20 bars or
  more never gives INSUFFICIENT_DATA.
\<close>

theorem generate_signal_insufficient:
  "generate_signal None = Inr (''INSUFFICIENT_DATA'', ''Not enough data'', Num 0)
   \<and> (len f < 20 \<longrightarrow>
        generate_signal (Some f) = Inr (''INSUFFICIENT_DATA'', ''Not enough data'', Num 0))
   \<and> (20 \<le> len f \<longrightarrow>
        (\<forall>reason conf. generate_signal (Some f) \<noteq> Inr (''INSUFFICIENT_DATA'', reason, conf)))"
  by (auto simp: generate_signal_def Let_def split: sum.splits)

theorem generate_signal_insufficient_witness:
  "len (enriched_frame 4 100 (Num 101) NaN NaN) < 20
   \<and> generate_signal (Some (enriched_frame 4 100 (Num 101) NaN NaN))
       = Inr (''INSUFFICIENT_DATA'', ''Not enough data'', Num 0)
   \<and> 20 \<le> len (enriched_frame 19 100 (Num 101) (Num 100) (Num 60))
   \<and> generate_signal (Some (enriched_frame 19 100 (Num 101) (Num 100) (Num 60)))
       \<noteq> Inr (''INSUFFICIENT_DATA'', ''Not enough data'', Num 0)"
  using generate_signal_insufficient [of "enriched_frame 4 100 (Num 101) NaN NaN"]
    generate_signal_insufficient [of "enriched_frame 19 100 (Num 101) (Num 100) (Num 60)"]
  by simp

lemma generate_signal_finite:
  assumes "20 \<le> len f"
    and "latest f ''Close'' = Inr (Num c)"
    and "latest f ''SMA_20'' = Inr (Num s)"
    and "latest f ''RSI'' = Inr (Num r)"
  shows "generate_signal (Some f) =
     Inr (if s < c \<and> r < 70 then
            (''BUY'', ''Price above SMA20, RSI: '' @ format_1f (Num r),
             Num (if s = 0 then 80 else min 80 (50 + (c - s) / s * 1000)))
          else if c \<le> s \<and> 30 < r then
            (''SELL'', ''Price below SMA20, RSI: '' @ format_1f (Num r),
             Num (if s = 0 then 80 else min 80 (50 + (s - c) / s * 1000)))
          else (''NEUTRAL'', ''Mixed signals, RSI: '' @ format_1f (Num r), Num 40))"
  using assms
  by (auto simp: generate_signal_def Let_def fgt_def fsub_def py_min_def min_def)

text \<open>
  Claim C1. With 20 bars or more and the latest close \<open>c\<close>, SMA_20 \<open>s\<close> and RSI \<open>r\<close>
  all numbers: \<open>c > s\<close> and \<open>r < 70\<close> give BUY, \<open>c \<le> s\<close> and \<open>r > 30\<close> give SELL,
  every other case gives NEUTRAL with confidence 40, each with the reason of the claim;
  the confidence of BUY and SELL is \<open>min(80, 50 + ((c - s) / s) * 1000)\<close>, mirrored for
  SELL, which for \<open>s = 0\<close> (a float division by zero, infinite or \<open>NaN\<close>) is 80. The
  three conditions are exhaustive and exclude one another.
\<close>

theorem generate_signal_branches:
  assumes "20 \<le> len f"
    and "latest f ''Close'' = Inr (Num c)"
    and "latest f ''SMA_20'' = Inr (Num s)"
    and "latest f ''RSI'' = Inr (Num r)"
  shows "(s < c \<and> r < 70 \<longrightarrow>
           generate_signal (Some f) =
             Inr (''BUY'', ''Price above SMA20, RSI: '' @ format_1f (Num r),
                  Num (if s = 0 then 80 else min 80 (50 + (c - s) / s * 1000))))
       \<and> (c \<le> s \<and> 30 < r \<longrightarrow>
           generate_signal (Some f) =
             Inr (''SELL'', ''Price below SMA20, RSI: '' @ format_1f (Num r),
                  Num (if s = 0 then 80 else min 80 (50 + (s - c) / s * 1000))))
       \<and> (s < c \<and> 70 \<le> r \<or> c \<le> s \<and> r \<le> 30 \<longrightarrow>
           generate_signal (Some f) =
             Inr (''NEUTRAL'', ''Mixed signals, RSI: '' @ format_1f (Num r), Num 40))
       \<and> ((s < c \<and> r < 70) \<or> (c \<le> s \<and> 30 < r) \<or> (s < c \<and> 70 \<le> r \<or> c \<le> s \<and> r \<le> 30))
       \<and> \<not> ((s < c \<and> r < 70) \<and> (c \<le> s \<and> 30 < r))
       \<and> \<not> ((s < c \<and> r < 70) \<and> (s < c \<and> 70 \<le> r \<or> c \<le> s \<and> r \<le> 30))
       \<and> \<not> ((c \<le> s \<and> 30 < r) \<and> (s < c \<and> 70 \<le> r \<or> c \<le> s \<and> r \<le> 30))"
  using generate_signal_finite [OF assms] by auto

theorem generate_signal_branches_witness:
  "generate_signal (Some (enriched_frame 19 100 (Num 101) (Num 100) (Num 60)))
     = Inr (''BUY'', ''Price above SMA20, RSI: 60.0'', Num 60)
   \<and> generate_signal (Some (enriched_frame 19 100 (Num 99) (Num 100) (Num (161 / 4))))
     = Inr (''SELL'', ''Price below SMA20, RSI: 40.2'', Num 60)
   \<and> generate_signal (Some (enriched_frame 19 100 (Num 100) (Num 100) (Num 30)))
     = Inr (''NEUTRAL'', ''Mixed signals, RSI: 30.0'', Num 40)"
proof -
  have f60: "format_1f (Num 60) = ''60.0''" by code_simp
  have f40: "format_1f (Num (161 / 4)) = ''40.2''" by code_simp
  have f30: "format_1f (Num 30) = ''30.0''" by code_simp
  show ?thesis
    using generate_signal_branches [of "enriched_frame 19 100 (Num 101) (Num 100) (Num 60)" 101 100 60]
      generate_signal_branches [of "enriched_frame 19 100 (Num 99) (Num 100) (Num (161 / 4))" 99 100 "161 / 4"]
      generate_signal_branches [of "enriched_frame 19 100 (Num 100) (Num 100) (Num 30)" 100 100 30]
    by (simp del: format_1f.simps add: f60 f40 f30)
qed

lemma py_min_80_upper: "\<not> flt (Num 80) (py_min (Num 80) x)"
  by (cases x) (auto simp: py_min_def)

lemma confidence_buy_range:
  assumes "0 \<le> s" and "fgt c (Num s)"
  shows "is_num (py_min (Num 80) (fadd (Num 50) (fmul (fdiv (fsub c (Num s)) (Num s)) (Num 1000))))
       \<and> 50 \<le> num_of (py_min (Num 80) (fadd (Num 50) (fmul (fdiv (fsub c (Num s)) (Num s)) (Num 1000))))
       \<and> num_of (py_min (Num 80) (fadd (Num 50) (fmul (fdiv (fsub c (Num s)) (Num s)) (Num 1000)))) \<le> 80"
  using assms
  by (cases c) (auto simp: fgt_def fsub_def py_min_def)

lemma confidence_sell_range:
  assumes "0 \<le> s" and "\<not> fgt c (Num s)"
  shows "is_num (py_min (Num 80) (fadd (Num 50) (fmul (fdiv (fsub (Num s) c) (Num s)) (Num 1000))))
       \<and> 50 \<le> num_of (py_min (Num 80) (fadd (Num 50) (fmul (fdiv (fsub (Num s) c) (Num s)) (Num 1000))))
       \<and> num_of (py_min (Num 80) (fadd (Num 50) (fmul (fdiv (fsub (Num s) c) (Num s)) (Num 1000)))) \<le> 80"
  using assms
  by (cases c) (auto simp: fgt_def fsub_def py_min_def)

text \<open>
  Claim C5, as the code has it. The confidence never exceeds 80; it is 0 for
  INSUFFICIENT_DATA, 50 for NEUTRAL "Calculating...", 40 for NEUTRAL "Mixed signals"; for
  BUY and SELL it lies in [50, 80], hence in [0, 80], when the latest SMA_20 is a
  non-negative number. The formula has no lower clamp: with a negative SMA_20 the
  confidence of BUY and SELL can be negative.
\<close>

theorem generate_signal_confidence:
  assumes "generate_signal data = Inr (k, rsn, conf)"
  shows "\<not> flt (Num 80) conf
       \<and> (k = ''INSUFFICIENT_DATA'' \<longrightarrow> conf = Num 0)
       \<and> (k = ''NEUTRAL'' \<and> rsn = ''Calculating...'' \<longrightarrow> conf = Num 50)
       \<and> (k = ''NEUTRAL'' \<and> rsn \<noteq> ''Calculating...'' \<longrightarrow> conf = Num 40)
       \<and> (k = ''BUY'' \<or> k = ''SELL'' \<longrightarrow>
            (\<forall>f s. data = Some f \<and> latest f ''SMA_20'' = Inr (Num s) \<and> 0 \<le> s \<longrightarrow>
               is_num conf \<and> 50 \<le> num_of conf \<and> num_of conf \<le> 80))"
proof (cases data)
  case None
  with assms show ?thesis by (auto simp: generate_signal_def)
next
  case (Some f)
  show ?thesis
  proof (cases "len f < 20")
    case True
    with assms Some show ?thesis by (auto simp: generate_signal_def)
  next
    case False
    from assms Some False obtain c s r where
      l: "latest f ''Close'' = Inr c" "latest f ''SMA_20'' = Inr s" "latest f ''RSI'' = Inr r"
      by (auto simp: generate_signal_def split: sum.splits)
    show ?thesis
    proof (cases "isna s \<or> isna r")
      case True
      with assms Some False l show ?thesis by (auto simp: generate_signal_def)
    next
      case nn: False
      show ?thesis
      proof (cases "fgt c s \<and> flt r (Num 70)")
        case True
        with assms Some False l nn have
          k: "k = ''BUY''" and
          cf: "conf = py_min (Num 80) (fadd (Num 50) (fmul (fdiv (fsub c s) s) (Num 1000)))"
          by (auto simp: generate_signal_def)
        show ?thesis
          using k cf True l Some confidence_buy_range [of _ c] py_min_80_upper
          by (auto simp del: fadd.simps fmul.simps fdiv.simps)
      next
        case nb: False
        show ?thesis
        proof (cases "\<not> fgt c s \<and> fgt r (Num 30)")
          case True
          with assms Some False l nn nb have
            k: "k = ''SELL''" and
            cf: "conf = py_min (Num 80) (fadd (Num 50) (fmul (fdiv (fsub s c) s) (Num 1000)))"
            by (auto simp: generate_signal_def)
          show ?thesis
            using k cf True l Some confidence_sell_range [of _ c] py_min_80_upper
            by (auto simp del: fadd.simps fmul.simps fdiv.simps)
        next
          case False
          with assms Some \<open>\<not> len f < 20\<close> l nn nb show ?thesis
            by (auto simp: generate_signal_def)
        qed
      qed
    qed
  qed
qed

theorem generate_signal_confidence_witness:
  "generate_signal (Some (enriched_frame 19 100 (Num 101) (Num 100) (Num 60)))
     = Inr (''BUY'', ''Price above SMA20, RSI: 60.0'', Num 60)
   \<and> latest (enriched_frame 19 100 (Num 101) (Num 100) (Num 60)) ''SMA_20'' = Inr (Num 100)
   \<and> \<not> flt (Num 80) (Num 60) \<and> is_num (Num 60) \<and> 50 \<le> num_of (Num 60) \<and> num_of (Num 60) \<le> 80"
proof -
  have f60: "format_1f (Num 60) = ''60.0''" by code_simp
  have g: "generate_signal (Some (enriched_frame 19 100 (Num 101) (Num 100) (Num 60)))
     = Inr (''BUY'', ''Price above SMA20, RSI: 60.0'', Num 60)"
    using generate_signal_finite [of "enriched_frame 19 100 (Num 101) (Num 100) (Num 60)" 101 100 60]
    by (simp del: format_1f.simps add: f60)
  show ?thesis
    using g generate_signal_confidence [OF g] by simp
qed

text \<open>
  Claim C10. Two frames of 20 bars or more whose latest Close, SMA_20 and RSI agree
  (as values, \<open>NaN\<close> included, or as the same failure to read the column) give the same
  result: no other bar and no other column is read.
\<close>

theorem generate_signal_latest_only:
  assumes "20 \<le> len f1" and "20 \<le> len f2"
    and "latest f1 ''Close'' = latest f2 ''Close''"
    and "latest f1 ''SMA_20'' = latest f2 ''SMA_20''"
    and "latest f1 ''RSI'' = latest f2 ''RSI''"
  shows "generate_signal (Some f1) = generate_signal (Some f2)"
proof -
  from assms have a: "\<not> len f1 < 20" "\<not> len f2 < 20" by simp_all
  show ?thesis
    unfolding generate_signal_def option.case if_not_P [OF a(1)] if_not_P [OF a(2)] assms(3-5) ..
qed

theorem generate_signal_latest_only_witness:
  "20 \<le> len (enriched_frame 19 100 (Num 101) (Num 100) (Num 60))
   \<and> 20 \<le> len (enriched_frame 29 7 (Num 101) (Num 100) (Num 60))
   \<and> len (enriched_frame 19 100 (Num 101) (Num 100) (Num 60))
       \<noteq> len (enriched_frame 29 7 (Num 101) (Num 100) (Num 60))
   \<and> generate_signal (Some (enriched_frame 19 100 (Num 101) (Num 100) (Num 60)))
       = generate_signal (Some (enriched_frame 29 7 (Num 101) (Num 100) (Num 60)))"
  using generate_signal_latest_only [of "enriched_frame 19 100 (Num 101) (Num 100) (Num 60)"
      "enriched_frame 29 7 (Num 101) (Num 100) (Num 60)"]
  by simp

section \<open>The indicator engine\<close>

lemma cti_None: "calculate_technical_indicators None h = (Inr None, h)"
  by (simp add: calculate_technical_indicators_def)

lemma cti_short: "len (h r) < 20 \<Longrightarrow> calculate_technical_indicators (Some r) h = (Inr None, h)"
  by (simp add: calculate_technical_indicators_def)

lemma cti_no_close:
  "20 \<le> len (h r) \<Longrightarrow> columns (h r) ''Close'' = None \<Longrightarrow>
     calculate_technical_indicators (Some r) h = (Inl KeyError, h)"
  by (simp add: calculate_technical_indicators_def getitem_def)

lemma cti_run:
  assumes "20 \<le> len (h r)" and "columns (h r) ''Close'' = Some close"
  shows "calculate_technical_indicators (Some r) h =
           (Inr (Some r), h(r := (h r)\<lparr>columns := indicator_columns close (columns (h r))\<rparr>))"
  using assms
  by (simp add: calculate_technical_indicators_def getitem_def setitem_def Let_def
      indicator_columns_def rsi_series_def gain_series_def loss_series_def bb_upper_def bb_lower_def)

lemma length_rolling_mean [simp]: "length (rolling_mean w xs) = length xs"
  by (simp add: rolling_mean_def)

lemma length_rolling_std [simp]: "length (rolling_std w xs) = length xs"
  by (simp add: rolling_std_def)

lemma length_diff [simp]: "length (diff xs) = length xs"
  by (simp add: diff_def)

lemma length_where_or [simp]: "length (where_or p d xs) = length xs"
  by (simp add: where_or_def)

lemma nth_rolling_mean:
  "i < length xs \<Longrightarrow>
     rolling_mean w xs ! i =
       (if 0 < w \<and> w \<le> Suc i \<and> list_all is_num (window_at w xs i)
        then mean_of (window_at w xs i) else NaN)"
  by (simp add: rolling_mean_def)

lemma nth_rolling_std:
  "i < length xs \<Longrightarrow>
     rolling_std w xs ! i =
       (if 1 < w \<and> w \<le> Suc i \<and> list_all is_num (window_at w xs i)
        then std_of (window_at w xs i) else NaN)"
  by (simp add: rolling_std_def)

lemma length_gain_series [simp]: "length (gain_series c) = length c"
  by (simp add: gain_series_def)

lemma length_loss_series [simp]: "length (loss_series c) = length c"
  by (simp add: loss_series_def)

lemma length_rsi_series [simp]: "length (rsi_series c) = length c"
  by (simp add: rsi_series_def)

lemma length_bb_upper [simp]: "length (bb_upper c) = length c"
  by (simp add: bb_upper_def)

lemma length_bb_lower [simp]: "length (bb_lower c) = length c"
  by (simp add: bb_lower_def)

lemma nth_rsi_series:
  "i < length c \<Longrightarrow> rsi_series c ! i = rsi_of (fdiv (gain_series c ! i) (loss_series c ! i))"
  by (simp add: rsi_series_def)

lemma rsi_of_NaN [simp]: "rsi_of NaN = NaN"
  by (simp add: rsi_of_def fsub_def)

lemma rolling_mean_early: "i < length xs \<Longrightarrow> Suc i < w \<Longrightarrow> rolling_mean w xs ! i = NaN"
  by (simp add: nth_rolling_mean)

lemma rolling_std_early: "i < length xs \<Longrightarrow> Suc i < w \<Longrightarrow> rolling_std w xs ! i = NaN"
  by (simp add: nth_rolling_std)

lemma rsi_series_early: "i < length c \<Longrightarrow> i < 13 \<Longrightarrow> rsi_series c ! i = NaN"
  by (simp add: nth_rsi_series gain_series_def rolling_mean_early)

lemma nth_bb_upper:
  "i < length c \<Longrightarrow>
     bb_upper c ! i = fadd (rolling_mean 20 c ! i) (fmul (rolling_std 20 c ! i) (Num 2))"
  by (simp add: bb_upper_def)

lemma nth_bb_lower:
  "i < length c \<Longrightarrow>
     bb_lower c ! i = fsub (rolling_mean 20 c ! i) (fmul (rolling_std 20 c ! i) (Num 2))"
  by (simp add: bb_lower_def)

lemma columns_indicator [simp]:
  "indicator_columns c cs ''SMA_20'' = Some (rolling_mean 20 c)"
  "indicator_columns c cs ''SMA_50'' = Some (rolling_mean 50 c)"
  "indicator_columns c cs ''RSI'' = Some (rsi_series c)"
  "indicator_columns c cs ''BB_Middle'' = Some (rolling_mean 20 c)"
  "indicator_columns c cs ''BB_Upper'' = Some (bb_upper c)"
  "indicator_columns c cs ''BB_Lower'' = Some (bb_lower c)"
  by (simp_all add: indicator_columns_def)

lemma columns_indicator_other:
  "n \<notin> {''SMA_20'', ''SMA_50'', ''RSI'', ''BB_Middle'', ''BB_Upper'', ''BB_Lower''} \<Longrightarrow>
     indicator_columns c cs n = cs n"
  by (simp add: indicator_columns_def)

lemma length_window_at: "i < length xs \<Longrightarrow> w \<le> Suc i \<Longrightarrow> length (window_at w xs i) = w"
  by (simp add: window_at_def)

lemma nth_window_at:
  "i < length xs \<Longrightarrow> w \<le> Suc i \<Longrightarrow> k < w \<Longrightarrow> window_at w xs i ! k = xs ! (Suc i - w + k)"
  by (simp add: window_at_def)

lemma set_window_at: "set (window_at w xs i) \<subseteq> set xs"
  unfolding window_at_def
  by (meson set_take_subset set_drop_subset subset_trans)

lemma list_all_window_at:
  assumes "i < length xs" and "w \<le> Suc i"
  shows "list_all p (window_at w xs i) = (\<forall>j. Suc i - w \<le> j \<and> j \<le> i \<longrightarrow> p (xs ! j))"
proof -
  have "list_all p (window_at w xs i) = (\<forall>k<w. p (xs ! (Suc i - w + k)))"
    using assms by (simp add: list_all_length length_window_at nth_window_at)
  also have "\<dots> = (\<forall>j. Suc i - w \<le> j \<and> j \<le> i \<longrightarrow> p (xs ! j))"
  proof (intro iffI allI impI)
    fix j assume a: "\<forall>k<w. p (xs ! (Suc i - w + k))" and b: "Suc i - w \<le> j \<and> j \<le> i"
    from b assms have "j - (Suc i - w) < w" by arith
    with a have "p (xs ! (Suc i - w + (j - (Suc i - w))))" by blast
    with b show "p (xs ! j)" by simp
  next
    fix k assume a: "\<forall>j. Suc i - w \<le> j \<and> j \<le> i \<longrightarrow> p (xs ! j)" and b: "k < w"
    from b assms have "Suc i - w \<le> Suc i - w + k \<and> Suc i - w + k \<le> i" by arith
    with a show "p (xs ! (Suc i - w + k))" by blast
  qed
  finally show ?thesis .
qed

lemma sum_list_window_at:
  assumes "i < length xs" and "w \<le> Suc i"
  shows "sum_list (map f (window_at w xs i)) = (\<Sum>j = Suc i - w..i. (f (xs ! j) :: real))"
proof -
  have "sum_list (map f (window_at w xs i)) = (\<Sum>k = 0..<w. f (xs ! (Suc i - w + k)))"
    using assms by (simp add: sum_list_sum_nth length_window_at nth_window_at)
  also have "\<dots> = (\<Sum>j = 0 + (Suc i - w)..<w + (Suc i - w). f (xs ! j))"
    by (simp only: sum.shift_bounds_nat_ivl add.commute)
  also have "\<dots> = (\<Sum>j = Suc i - w..i. f (xs ! j))"
    using assms by (simp add: atLeastLessThanSuc_atLeastAtMost)
  finally show ?thesis .
qed

text \<open>
  Claim C6. For a window \<open>w \<ge> 1\<close> the moving average has the length of the Close
  column; it is \<open>NaN\<close> at every index below \<open>w - 1\<close>, and at an index \<open>i \<ge> w - 1\<close>
  whose window holds numbers it is the sum of the closes at \<open>i - w + 1, ..., i\<close>
  divided by \<open>w\<close>.
\<close>

theorem simple_moving_average_mean:
  assumes "getitem data ''Close'' = Inr close" and "0 < w"
  shows "\<exists>sma. simple_moving_average data w = Inr sma \<and> length sma = length close
           \<and> (\<forall>i<length close. Suc i < w \<longrightarrow> sma ! i = NaN)
           \<and> (\<forall>i<length close. w \<le> Suc i
                 \<and> (\<forall>j. Suc i - w \<le> j \<and> j \<le> i \<longrightarrow> is_num (close ! j)) \<longrightarrow>
                 sma ! i = Num ((\<Sum>j = Suc i - w..i. num_of (close ! j)) / real w))"
proof -
  have s: "simple_moving_average data w = Inr (rolling_mean w close)"
    using assms by (simp add: simple_moving_average_def)
  have a: "\<forall>i<length close. Suc i < w \<longrightarrow> rolling_mean w close ! i = NaN"
    by (simp add: rolling_mean_early)
  have b: "\<forall>i<length close. w \<le> Suc i
                 \<and> (\<forall>j. Suc i - w \<le> j \<and> j \<le> i \<longrightarrow> is_num (close ! j)) \<longrightarrow>
                 rolling_mean w close ! i = Num ((\<Sum>j = Suc i - w..i. num_of (close ! j)) / real w)"
    using assms(2)
    by (simp add: nth_rolling_mean list_all_window_at mean_of_def sum_list_window_at length_window_at)
  show ?thesis using s a b by simp
qed

lemma where_gain_nonneg: "x \<in> set (where_or (\<lambda>d. fgt d (Num 0)) (Num 0) ds) \<Longrightarrow> 0 \<le> num_of x"
  by (cases x) (auto simp: where_or_def fgt_def split: if_splits)

lemma where_loss_nonneg:
  "x \<in> set (where_or (\<lambda>d. flt d (Num 0)) (Num 0) ds) \<Longrightarrow> 0 \<le> num_of (fneg x)"
  by (cases x) (auto simp: where_or_def split: if_splits)

lemma fdiv_NaN_right [simp]: "fdiv x NaN = NaN"
  by (cases x) simp_all

lemma mean_of_nonneg:
  assumes "\<forall>x\<in>set ws. 0 \<le> num_of x"
  shows "\<exists>g\<ge>0. mean_of ws = Num g"
proof -
  have "0 \<le> sum_list (map num_of ws)"
    using assms by (intro sum_list_nonneg) auto
  then show ?thesis by (simp add: mean_of_def)
qed

lemma rolling_mean_nonneg:
  assumes "\<forall>x\<in>set xs. 0 \<le> num_of x" and "i < length xs"
  shows "rolling_mean w xs ! i = NaN \<or> (\<exists>g\<ge>0. rolling_mean w xs ! i = Num g)"
proof -
  have "\<forall>x\<in>set (window_at w xs i). 0 \<le> num_of x"
    using assms(1) set_window_at by blast
  from mean_of_nonneg [OF this] show ?thesis
    using assms(2) by (auto simp: nth_rolling_mean)
qed

lemma gain_series_cases:
  "i < length c \<Longrightarrow> gain_series c ! i = NaN \<or> (\<exists>g\<ge>0. gain_series c ! i = Num g)"
  unfolding gain_series_def
  by (rule rolling_mean_nonneg) (auto dest: where_gain_nonneg)

lemma loss_series_cases:
  "i < length c \<Longrightarrow> loss_series c ! i = NaN \<or> (\<exists>g\<ge>0. loss_series c ! i = Num g)"
  unfolding loss_series_def
  by (rule rolling_mean_nonneg) (auto dest: where_loss_nonneg)

lemma rsi_value_range:
  assumes "0 \<le> g" and "0 < l"
  shows "0 \<le> 100 - 100 / (1 + g / l)" and "100 - 100 / (1 + g / l) < (100::real)"
proof -
  have q: "0 \<le> g / l" using assms by simp
  then have "100 / (1 + g / l) \<le> 100 / 1"
    by (intro divide_left_mono) auto
  then show "0 \<le> 100 - 100 / (1 + g / l)" by simp
  have "0 < 100 / (1 + g / l)" using q by simp
  then show "100 - 100 / (1 + g / l) < 100" by simp
qed

lemma rsi_of_nonneg:
  assumes "0 \<le> g" and "0 \<le> l"
  shows "rsi_of (fdiv (Num g) (Num l)) =
     (if l = 0 then (if g = 0 then NaN else Num 100) else Num (100 - 100 / (1 + g / l)))"
proof -
  have "0 \<le> g / l" using assms by simp
  then have "1 + g / l \<noteq> 0" by linarith
  with assms show ?thesis by (simp add: rsi_of_def fsub_def)
qed

lemma rsi_series_sound:
  assumes "i < length c"
  shows "(rsi_series c ! i = NaN
            \<or> (is_num (rsi_series c ! i) \<and> 0 \<le> num_of (rsi_series c ! i)
                 \<and> num_of (rsi_series c ! i) \<le> 100))
       \<and> (rsi_series c ! i = Num 100 \<longleftrightarrow>
            loss_series c ! i = Num 0 \<and> is_num (gain_series c ! i)
              \<and> 0 < num_of (gain_series c ! i))
       \<and> (gain_series c ! i = Num 0 \<and> loss_series c ! i = Num 0 \<longrightarrow> rsi_series c ! i = NaN)"
proof -
  consider (gn) "gain_series c ! i = NaN" | (ln) "loss_series c ! i = NaN"
    | (num) g l where "gain_series c ! i = Num g" "loss_series c ! i = Num l" "0 \<le> g" "0 \<le> l"
    using gain_series_cases [OF assms] loss_series_cases [OF assms] by blast
  then show ?thesis
  proof cases
    case gn
    then show ?thesis using assms by (simp add: nth_rsi_series)
  next
    case ln
    then show ?thesis using assms by (simp add: nth_rsi_series)
  next
    case num
    have r: "rsi_series c ! i =
       (if l = 0 then (if g = 0 then NaN else Num 100) else Num (100 - 100 / (1 + g / l)))"
      using assms num by (simp del: fdiv.simps add: nth_rsi_series rsi_of_nonneg)
    show ?thesis
    proof (cases "l = 0")
      case True
      with r num show ?thesis by auto
    next
      case False
      with num have "0 < l" by simp
      from rsi_value_range [OF num(3) this] r False num show ?thesis by auto
    qed
  qed
qed

lemma indicator_at_run:
  assumes "20 \<le> len (h r)" and "getitem (h r) ''Close'' = Inr close"
  shows "indicator_at h r name i =
           (case indicator_columns close (columns (h r)) name of
              None \<Rightarrow> Inl KeyError
            | Some c \<Rightarrow> if i < length c then Inr (c ! i) else Inl IndexError)"
proof -
  from assms(2) have c: "columns (h r) ''Close'' = Some close"
    by (simp add: getitem_def split: option.splits)
  show ?thesis
    by (simp add: indicator_at_def cti_run [of h r close, OF assms(1) c] getitem_def split: option.splits)
qed

lemma raw_frame_simps [simp]:
  "len (raw_frame cs) = length cs"
  "getitem (raw_frame cs) ''Close'' = Inr (map Num cs)"
  "columns (raw_frame cs) ''Close'' = Some (map Num cs)"
  by (simp_all add: raw_frame_def len_def getitem_def)

lemma heap_of_simps [simp]: "heap_of cs r = raw_frame cs"
  by (simp add: heap_of_def)

lemma rsi_example_13: "rsi_series (map Num example_closes) ! 13 = Num (700 / 13)"
  by code_simp

lemma length_example_closes [simp]: "length example_closes = 20"
  by (simp add: example_closes_def)

text \<open>
  Claim C3, as the code has it. The missing first delta is replaced by 0 before the
  rolling mean (\<open>delta.where(delta > 0, 0)\<close>), so the 14-bar window of gains and losses
  is full from index 13 on: the RSI is \<open>NaN\<close> at every index below 13, and index 13 is
  the first at which it can be a number, as it is for the closes 10, 11, 10, 11, ...
\<close>

theorem rsi_undefined_before_13:
  assumes "20 \<le> len (h r)" and "getitem (h r) ''Close'' = Inr close"
    and "i < length close" and "i < 13"
  shows "indicator_at h r ''RSI'' i = Inr NaN
       \<and> indicator_at (heap_of example_closes) 0 ''RSI'' 13 = Inr (Num (700 / 13))"
proof -
  have a: "indicator_at h r ''RSI'' i = Inr NaN"
    using assms by (simp add: indicator_at_run rsi_series_early)
  have b: "indicator_at (heap_of example_closes) 0 ''RSI'' 13 = Inr (Num (700 / 13))"
    by (simp add: indicator_at_run [of _ _ "map Num example_closes"] rsi_example_13)
  show ?thesis using a b by simp
qed

theorem rsi_undefined_before_13_witness:
  "indicator_at (heap_of example_closes) 0 ''RSI'' 12 = Inr NaN"
  using rsi_undefined_before_13 [of "heap_of example_closes" 0 "map Num example_closes" 12]
  by simp

text \<open>
  Claim C3 as stated fails at index 13: for 20 closes alternating between 10 and 11 the
  RSI at index 13 is the number 700/13.
\<close>

theorem rsi_defined_at_13:
  "indicator_at (heap_of example_closes) 0 ''RSI'' 13 = Inr (Num (700 / 13))"
  by (simp add: indicator_at_run [of _ _ "map Num example_closes"] rsi_example_13)

text \<open>
  Claim C7. At every index the RSI the engine stores is \<open>NaN\<close> or a number in
  [0, 100]; it is 100 exactly when the average loss is 0 and the average gain is a
  positive number; when both averages are 0 it is \<open>NaN\<close>.
\<close>

theorem rsi_range:
  assumes "20 \<le> len (h r)" and "getitem (h r) ''Close'' = Inr close" and "i < length close"
  shows "indicator_at h r ''RSI'' i = Inr (rsi_series close ! i)
       \<and> (rsi_series close ! i = NaN
            \<or> (is_num (rsi_series close ! i) \<and> 0 \<le> num_of (rsi_series close ! i)
                 \<and> num_of (rsi_series close ! i) \<le> 100))
       \<and> (rsi_series close ! i = Num 100 \<longleftrightarrow>
            loss_series close ! i = Num 0 \<and> is_num (gain_series close ! i)
              \<and> 0 < num_of (gain_series close ! i))
       \<and> (gain_series close ! i = Num 0 \<and> loss_series close ! i = Num 0 \<longrightarrow>
            rsi_series close ! i = NaN)"
proof -
  have a: "indicator_at h r ''RSI'' i = Inr (rsi_series close ! i)"
    using assms by (simp add: indicator_at_run)
  show ?thesis using a rsi_series_sound [OF assms(3)] by blast
qed









lemma length_flat_closes [simp]: "length flat_closes = 30"
  by (simp add: flat_closes_def)


theorem simple_moving_average_mean_witness:
  "\<exists>sma. simple_moving_average (raw_frame short_closes) 2 = Inr sma
      \<and> length sma = 3 \<and> sma ! 0 = NaN \<and> sma ! 2 = Num (203 / 2)"
proof -
  from simple_moving_average_mean [of "raw_frame short_closes" "map Num short_closes" 2]
  obtain sma where s: "simple_moving_average (raw_frame short_closes) 2 = Inr sma"
    and l: "length sma = length (map Num short_closes)"
    and e: "\<forall>i<length (map Num short_closes). Suc i < 2 \<longrightarrow> sma ! i = NaN"
    and m: "\<forall>i<length (map Num short_closes). 2 \<le> Suc i
                 \<and> (\<forall>j. Suc i - 2 \<le> j \<and> j \<le> i \<longrightarrow> is_num (map Num short_closes ! j)) \<longrightarrow>
                 sma ! i = Num ((\<Sum>j = Suc i - 2..i. num_of (map Num short_closes ! j)) / real 2)"
    by auto
  have len: "length (map Num short_closes) = 3" by (simp add: short_closes_def)
  have "sma ! 0 = NaN" using e by (simp add: short_closes_def)
  moreover have "\<forall>j. Suc 2 - 2 \<le> j \<and> j \<le> 2 \<longrightarrow> is_num (map Num short_closes ! j)"
  proof (intro allI impI)
    fix j :: nat assume "Suc 2 - 2 \<le> j \<and> j \<le> 2"
    then have "j < length short_closes" using len by simp
    then show "is_num (map Num short_closes ! j)" by simp
  qed
  with m [rule_format, of 2] len
  have "sma ! 2 = Num ((\<Sum>j = Suc 2 - 2..2. num_of (map Num short_closes ! j)) / real 2)"
    by simp
  moreover have "(\<Sum>j = Suc 2 - 2..2. num_of (map Num short_closes ! j)) = 203"
  proof -
    have "{Suc 2 - 2..2} = {1::nat, 2}" by auto
    then show ?thesis by (simp add: short_closes_def)
  qed
  ultimately show ?thesis using s l len by simp
qed

lemma length_short_closes [simp]: "length short_closes = 3"
  by (simp add: short_closes_def)

lemma length_negative_closes [simp]: "length negative_closes = 20"
  by (simp add: negative_closes_def)

lemma getitem_Close: "getitem f ''Close'' = Inr c \<Longrightarrow> columns f ''Close'' = Some c"
  by (simp add: getitem_def split: option.splits)

lemma engine_early_undefined:
  assumes "20 \<le> len (h r)" and "getitem (h r) ''Close'' = Inr close" and "i < length close"
  shows "(i < 19 \<longrightarrow> indicator_at h r ''SMA_20'' i = Inr NaN
                    \<and> indicator_at h r ''BB_Middle'' i = Inr NaN
                    \<and> indicator_at h r ''BB_Upper'' i = Inr NaN
                    \<and> indicator_at h r ''BB_Lower'' i = Inr NaN)
       \<and> (i < 49 \<longrightarrow> indicator_at h r ''SMA_50'' i = Inr NaN)
       \<and> (i < 13 \<longrightarrow> indicator_at h r ''RSI'' i = Inr NaN)"
  using assms
  by (simp add: indicator_at_run rolling_mean_early rolling_std_early rsi_series_early
      nth_bb_upper nth_bb_lower fsub_def)

lemma engine_columns_length:
  assumes "n \<in> {''SMA_20'', ''SMA_50'', ''RSI'', ''BB_Middle'', ''BB_Upper'', ''BB_Lower''}"
  shows "\<exists>c. getitem (f\<lparr>columns := indicator_columns close (columns f)\<rparr>) n = Inr c
             \<and> length c = length close"
  using assms by (auto simp: getitem_def)

text \<open>
  Claim C4, as the code has it. The engine has a guard: for a missing series and for a
  series of fewer than 20 bars it returns \<open>None\<close> and does nothing. For a series of 20
  bars or more with a Close column it does not raise and returns the frame, of the same
  length, with six indicator columns as long as the Close column, where SMA_20 and the
  three bands are \<open>NaN\<close> below index 19, SMA_50 below index 49 and RSI below index 13.
\<close>

theorem engine_result:
  "calculate_technical_indicators None h = (Inr None, h)
   \<and> (len (h r) < 20 \<longrightarrow> calculate_technical_indicators (Some r) h = (Inr None, h))
   \<and> (20 \<le> len (h r) \<and> getitem (h r) ''Close'' = Inr close \<longrightarrow>
        (\<exists>h'. calculate_technical_indicators (Some r) h = (Inr (Some r), h')
           \<and> len (h' r) = len (h r)
           \<and> (\<forall>n\<in>{''SMA_20'', ''SMA_50'', ''RSI'', ''BB_Middle'', ''BB_Upper'', ''BB_Lower''}.
                 \<exists>c. getitem (h' r) n = Inr c \<and> length c = length close)
           \<and> (\<forall>i<length close.
                 (i < 19 \<longrightarrow> indicator_at h r ''SMA_20'' i = Inr NaN
                    \<and> indicator_at h r ''BB_Middle'' i = Inr NaN
                    \<and> indicator_at h r ''BB_Upper'' i = Inr NaN
                    \<and> indicator_at h r ''BB_Lower'' i = Inr NaN)
               \<and> (i < 49 \<longrightarrow> indicator_at h r ''SMA_50'' i = Inr NaN)
               \<and> (i < 13 \<longrightarrow> indicator_at h r ''RSI'' i = Inr NaN))))"
proof (intro conjI impI)
  show "calculate_technical_indicators None h = (Inr None, h)" by (rule cti_None)
next
  assume "len (h r) < 20"
  then show "calculate_technical_indicators (Some r) h = (Inr None, h)" by (rule cti_short)
next
  assume a: "20 \<le> len (h r) \<and> getitem (h r) ''Close'' = Inr close"
  then have c: "columns (h r) ''Close'' = Some close" by (simp add: getitem_Close)
  let ?h' = "h(r := (h r)\<lparr>columns := indicator_columns close (columns (h r))\<rparr>)"
  have run: "calculate_technical_indicators (Some r) h = (Inr (Some r), ?h')"
    using a c by (simp add: cti_run [of h r close])
  have l: "len (?h' r) = len (h r)" by (simp add: len_def)
  have cols: "\<forall>n\<in>{''SMA_20'', ''SMA_50'', ''RSI'', ''BB_Middle'', ''BB_Upper'', ''BB_Lower''}.
                 \<exists>c. getitem (?h' r) n = Inr c \<and> length c = length close"
    using engine_columns_length [where f = "h r" and close = close] by simp
  have early: "\<forall>i<length close.
                 (i < 19 \<longrightarrow> indicator_at h r ''SMA_20'' i = Inr NaN
                    \<and> indicator_at h r ''BB_Middle'' i = Inr NaN
                    \<and> indicator_at h r ''BB_Upper'' i = Inr NaN
                    \<and> indicator_at h r ''BB_Lower'' i = Inr NaN)
               \<and> (i < 49 \<longrightarrow> indicator_at h r ''SMA_50'' i = Inr NaN)
               \<and> (i < 13 \<longrightarrow> indicator_at h r ''RSI'' i = Inr NaN)"
    using a engine_early_undefined [of h r close] by blast
  show "\<exists>h'. calculate_technical_indicators (Some r) h = (Inr (Some r), h')
           \<and> len (h' r) = len (h r)
           \<and> (\<forall>n\<in>{''SMA_20'', ''SMA_50'', ''RSI'', ''BB_Middle'', ''BB_Upper'', ''BB_Lower''}.
                 \<exists>c. getitem (h' r) n = Inr c \<and> length c = length close)
           \<and> (\<forall>i<length close.
                 (i < 19 \<longrightarrow> indicator_at h r ''SMA_20'' i = Inr NaN
                    \<and> indicator_at h r ''BB_Middle'' i = Inr NaN
                    \<and> indicator_at h r ''BB_Upper'' i = Inr NaN
                    \<and> indicator_at h r ''BB_Lower'' i = Inr NaN)
               \<and> (i < 49 \<longrightarrow> indicator_at h r ''SMA_50'' i = Inr NaN)
               \<and> (i < 13 \<longrightarrow> indicator_at h r ''RSI'' i = Inr NaN))"
    using run l cols early by blast
qed

theorem engine_result_witness:
  "len (heap_of short_closes 0) < 20
   \<and> fst (calculate_technical_indicators (Some 0) (heap_of short_closes)) = Inr None
   \<and> 20 \<le> len (heap_of example_closes 0)
   \<and> fst (calculate_technical_indicators (Some 0) (heap_of example_closes)) = Inr (Some 0)
   \<and> indicator_at (heap_of example_closes) 0 ''SMA_20'' 18 = Inr NaN
   \<and> indicator_at (heap_of example_closes) 0 ''RSI'' 12 = Inr NaN"
  using engine_result [of "heap_of short_closes" 0 "map Num short_closes"]
    engine_result [of "heap_of example_closes" 0 "map Num example_closes"]
  by auto

text \<open>
  Claim C4 as stated fails: for a series of three bars the engine returns \<open>None\<close>.
\<close>

theorem engine_no_result_when_short:
  "calculate_technical_indicators (Some 0) (heap_of short_closes) = (Inr None, heap_of short_closes)"
  by (simp add: cti_short)

text \<open>
  Claim C9, as the code has it. The engine assigns the indicator columns to the input
  frame itself and returns the reference it was given. A call changes no other frame;
  in the input frame the index and every column other than the six indicator columns
  keep their values; when a frame is returned it is the input and holds the six
  columns; when no frame is returned nothing has changed.
\<close>

theorem engine_frame_effect:
  assumes "calculate_technical_indicators data h = (res, h')"
  shows "(\<forall>r'. data \<noteq> Some r' \<longrightarrow> h' r' = h r')
       \<and> (\<forall>r. data = Some r \<longrightarrow> index (h' r) = index (h r)
              \<and> (\<forall>n. n \<notin> {''SMA_20'', ''SMA_50'', ''RSI'', ''BB_Middle'', ''BB_Upper'', ''BB_Lower''}
                     \<longrightarrow> columns (h' r) n = columns (h r) n))
       \<and> (\<forall>r. res = Inr (Some r) \<longrightarrow> data = Some r
              \<and> (\<forall>n\<in>{''SMA_20'', ''SMA_50'', ''RSI'', ''BB_Middle'', ''BB_Upper'', ''BB_Lower''}.
                    columns (h' r) n \<noteq> None))
       \<and> ((\<forall>r. res \<noteq> Inr (Some r)) \<longrightarrow> h' = h)"
proof (cases data)
  case None
  with assms show ?thesis by (auto simp: cti_None)
next
  case (Some r)
  show ?thesis
  proof (cases "len (h r) < 20")
    case True
    with assms Some show ?thesis by (auto simp: cti_short)
  next
    case False
    then have ge: "20 \<le> len (h r)" by simp
    show ?thesis
    proof (cases "columns (h r) ''Close''")
      case None
      with assms \<open>data = Some r\<close> ge show ?thesis by (auto simp: cti_no_close)
    next
      case (Some close)
      from cti_run [of h r close, OF ge Some] assms \<open>data = Some r\<close>
      have res: "res = Inr (Some r)"
        and h': "h' = h(r := (h r)\<lparr>columns := indicator_columns close (columns (h r))\<rparr>)"
        by simp_all
      show ?thesis
        using res h' \<open>data = Some r\<close>
        by (auto simp: columns_indicator_other)
    qed
  qed
qed

theorem engine_frame_effect_witness:
  "fst (calculate_technical_indicators (Some 0) (heap_of example_closes)) = Inr (Some 0)
   \<and> snd (calculate_technical_indicators (Some 0) (heap_of example_closes)) 1 = heap_of example_closes 1
   \<and> columns (snd (calculate_technical_indicators (Some 0) (heap_of example_closes)) 0) ''Close''
       = columns (heap_of example_closes 0) ''Close''
   \<and> columns (snd (calculate_technical_indicators (Some 0) (heap_of example_closes)) 0) ''RSI'' \<noteq> None"
proof -
  have run: "calculate_technical_indicators (Some 0) (heap_of example_closes) =
      (Inr (Some 0), (heap_of example_closes)(0 := (heap_of example_closes 0)
         \<lparr>columns := indicator_columns (map Num example_closes) (columns (heap_of example_closes 0))\<rparr>))"
    by (simp add: cti_run [of _ _ "map Num example_closes"])
  show ?thesis
    using engine_frame_effect [OF run] by (simp add: run del: heap_of_simps)
qed

text \<open>
  Claim C9 as stated fails: after the call on a frame of 20 bars with the column Close
  alone, the result is the reference of the input and the input frame has the column
  SMA_20, which it did not have.
\<close>

theorem engine_changes_input:
  "fst (calculate_technical_indicators (Some 0) (heap_of example_closes)) = Inr (Some 0)
   \<and> columns (heap_of example_closes 0) ''SMA_20'' = None
   \<and> columns (snd (calculate_technical_indicators (Some 0) (heap_of example_closes)) 0) ''SMA_20''
       = Some (rolling_mean 20 (map Num example_closes))"
proof -
  have run: "calculate_technical_indicators (Some 0) (heap_of example_closes) =
      (Inr (Some 0), (heap_of example_closes)(0 := (heap_of example_closes 0)
         \<lparr>columns := indicator_columns (map Num example_closes) (columns (heap_of example_closes 0))\<rparr>))"
    by (simp add: cti_run [of _ _ "map Num example_closes"])
  have "columns (heap_of example_closes 0) ''SMA_20'' = None"
    by (simp add: raw_frame_def)
  then show ?thesis by (simp add: run)
qed

lemma negative_closes_latest:
  "iloc_last (map Num negative_closes) = Inr (Num (- 9))"
  "iloc_last (rolling_mean 20 (map Num negative_closes)) = Inr (Num (- 201 / 20))"
  "iloc_last (rsi_series (map Num negative_closes)) = Inr (Num 60)"
  by code_simp+

text \<open>
  Claim C5 as stated fails on prices below zero: 18 closes of -10, then -12 and -9.
  The engine gives the latest SMA_20 -10.05 and RSI 60, and the signal is BUY with the
  confidence 50 + (1.05 / -10.05) * 1000 = -3650/67, below 0.
\<close>

theorem generate_signal_negative_confidence:
  "generate_signal
     (Some (snd (calculate_technical_indicators (Some 0) (heap_of negative_closes)) 0))
     = Inr (''BUY'', ''Price above SMA20, RSI: 60.0'', Num (- 3650 / 67))"
proof -
  let ?f = "(raw_frame negative_closes)
      \<lparr>columns := indicator_columns (map Num negative_closes) (columns (raw_frame negative_closes))\<rparr>"
  have run: "snd (calculate_technical_indicators (Some 0) (heap_of negative_closes)) 0 = ?f"
    by (simp add: cti_run [of _ _ "map Num negative_closes"])
  have l: "20 \<le> len ?f" by (simp add: len_def raw_frame_def)
  have c: "latest ?f ''Close'' = Inr (Num (- 9))"
    by (simp add: latest_def getitem_def columns_indicator_other negative_closes_latest)
  have s: "latest ?f ''SMA_20'' = Inr (Num (- 201 / 20))"
    by (simp add: latest_def getitem_def negative_closes_latest)
  have r: "latest ?f ''RSI'' = Inr (Num 60)"
    by (simp add: latest_def getitem_def negative_closes_latest)
  have f60: "format_1f (Num 60) = ''60.0''" by code_simp
  show ?thesis
    unfolding run using generate_signal_finite [OF l c s r]
    by (simp del: format_1f.simps add: f60)
qed

lemma length_rising_closes [simp]: "length rising_closes = 25"
  by (simp add: rising_closes_def)

lemma rsi_example_flat:
  "gain_series (map Num flat_closes) ! 20 = Num 0"
  "loss_series (map Num flat_closes) ! 20 = Num 0"
  by code_simp+

lemma rsi_example_rising:
  "gain_series (map Num rising_closes) ! 24 = Num 1"
  "loss_series (map Num rising_closes) ! 24 = Num 0"
  by code_simp+

theorem rsi_range_witness:
  "20 \<le> len (heap_of example_closes 0)
   \<and> 13 < length (map Num example_closes)
   \<and> indicator_at (heap_of example_closes) 0 ''RSI'' 13 = Inr (Num (700 / 13))
   \<and> indicator_at (heap_of rising_closes) 0 ''RSI'' 24 = Inr (Num 100)
   \<and> indicator_at (heap_of flat_closes) 0 ''RSI'' 20 = Inr NaN"
  using rsi_range [of "heap_of example_closes" 0 "map Num example_closes" 13]
    rsi_range [of "heap_of rising_closes" 0 "map Num rising_closes" 24]
    rsi_range [of "heap_of flat_closes" 0 "map Num flat_closes" 20]
  by (simp add: rsi_example_13 rsi_example_flat rsi_example_rising)

end
